theory Spec2Isabelle
  imports Main "HOL-Library.Sublist"
begin

section \<open>Language tags, plural rules and messages\<close>

text \<open>
  A \<open>language.Tag\<close> of golang.org/x/text is a comparable value; the bundle only compares
  tags with \<open>==\<close> and prints them with \<open>String()\<close>. A tag is represented by its
  canonical string form, so \<open>Tag_String\<close> is the identity.
\<close>

type_synonym Tag = string

definition Tag_String :: "Tag \<Rightarrow> string" where
  "Tag_String t = t"

definition English :: Tag where
  "English = ''en''"

text \<open>\<open>var artTag = language.MustParse("art")\<close>\<close>

definition artTag :: Tag where
  "artTag = ''art''"

text \<open>
  \<open>plural.Rules\<close> is a Go map from tags to rule pointers. A nil pointer and a missing key
  read the same, so the table is a partial map; the rule itself stays abstract (\<open>'r\<close>).
\<close>

type_synonym 'r Rules = "Tag \<rightharpoonup> 'r"

text \<open>
  Modelled from the spec: the base language of a tag (the package golang.org/x/text is not
  part of the sources). The spec relates "en-US" to "en": the base language is the part of
  the canonical form before the first hyphen.
\<close>

definition Base :: "Tag \<Rightarrow> Tag" where
  "Base t = takeWhile (\<lambda>c. c \<noteq> CHR ''-'') t"

text \<open>
  Modelled from the spec: the lookup \<open>plural.Rules.Rule\<close> of internal/plural, which is
  missing from the sources. The spec: "a lookup that returns the rule for the most
  specific matching tag (exact, then base language), returning no rule if nothing matches
  at all levels".
\<close>

definition Rule :: "'r Rules \<Rightarrow> Tag \<Rightarrow> 'r option" where
  "Rule rules tag = (case rules tag of Some r \<Rightarrow> Some r | None \<Rightarrow> rules (Base tag))"

text \<open>
  Modelled from the spec: the record \<open>Message\<close> (message.go is missing from the sources):
  an ID and the text of the plural categories. The bundle reads only \<open>ID\<close>.
\<close>

record Message =
  ID :: string
  Zero :: string
  One :: string
  Two :: string
  Few :: string
  Many :: string
  Other :: string

text \<open>
  Modelled from the spec: the record \<open>MessageFile\<close> returned by the package-level
  \<open>ParseMessageFileBytes\<close> (both missing from the sources): "a sequence of Message
  records plus a declared LanguageTag for the file". The bundle reads the fields \<open>Tag\<close>
  and \<open>Messages\<close>.
\<close>

record MessageFile =
  Tag :: Tag
  Messages :: "Message list"

text \<open>
  \<open>language.NewMatcher(tags)\<close> is a function of the list of supported tags alone. A matcher
  is represented by the list it was built from: its search space, in order.
\<close>

datatype Matcher = NewMatcher "Tag list"

datatype error =
  NoPluralRuleError Tag
  | OtherError string

section \<open>The bundle\<close>

text \<open>
  The struct \<open>Bundle\<close>. Go's maps are partial maps (a nil map reads as the empty map);
  the nil matcher of the zero value is \<open>None\<close>. \<open>'mt\<close> is the type of message
  templates, \<open>'u\<close> that of unmarshal functions.
\<close>

record ('r, 'mt, 'u) Bundle =
  defaultLanguage :: Tag
  unmarshalFuncs :: "string \<rightharpoonup> 'u"
  messageTemplates :: "string \<rightharpoonup> (string \<rightharpoonup> 'mt)"
  pluralRules :: "'r Rules"
  countryTagPair :: "string \<rightharpoonup> Tag list"
  matcher :: "Matcher option"

definition messageTemplateKey :: "string \<Rightarrow> Tag \<Rightarrow> string" where
  "messageTemplateKey countryCode tag = countryCode @ ''-'' @ Tag_String tag"

text \<open>\<open>b.countryTagPair[countryCode]\<close>: a missing key reads as the nil (empty) slice.\<close>

definition LanguageTags :: "('r, 'mt, 'u) Bundle \<Rightarrow> string \<Rightarrow> Tag list" where
  "LanguageTags b countryCode =
     (case countryTagPair b countryCode of None \<Rightarrow> [] | Some tags \<Rightarrow> tags)"

text \<open>
  The two nested loops of \<open>addTag\<close> range over every entry of \<open>countryTagPair\<close> and return
  early only at an entry whose key is \<open>countryCode\<close> and that holds \<open>tag\<close>: the test is
  whether \<open>tag\<close> is in the list stored under \<open>countryCode\<close>. Otherwise the tag is appended
  to that list and the matcher is rebuilt from it.
\<close>

definition addTag ::
  "('r, 'mt, 'u) Bundle \<Rightarrow> string \<Rightarrow> Tag \<Rightarrow> ('r, 'mt, 'u) Bundle" where
  "addTag b countryCode tag =
     (if tag \<in> set (LanguageTags b countryCode) then b
      else b\<lparr>countryTagPair := (countryTagPair b)(countryCode \<mapsto> LanguageTags b countryCode @ [tag]),
             matcher := Some (NewMatcher (LanguageTags b countryCode @ [tag]))\<rparr>)"

text \<open>
  \<open>NewBundle\<close>; the table \<open>plural.DefaultRules()\<close> is missing from the sources and is the
  parameter \<open>defaultRules\<close>. Storing a nil rule under \<open>artTag\<close> reads like no entry.
\<close>

definition NewBundle ::
  "'r Rules \<Rightarrow> string \<Rightarrow> Tag \<Rightarrow> ('r, 'mt, 'u) Bundle" where
  "NewBundle defaultRules countryCode defaultLang =
     addTag
       \<lparr>defaultLanguage = defaultLang,
        unmarshalFuncs = Map.empty,
        messageTemplates = Map.empty,
        pluralRules = defaultRules(artTag := Rule defaultRules English),
        countryTagPair = Map.empty,
        matcher = None\<rparr>
       countryCode defaultLang"

definition RegisterUnmarshalFunc ::
  "('r, 'mt, 'u) Bundle \<Rightarrow> string \<Rightarrow> 'u \<Rightarrow> ('r, 'mt, 'u) Bundle" where
  "RegisterUnmarshalFunc b format unmarshalFunc =
     b\<lparr>unmarshalFuncs := (unmarshalFuncs b)(format \<mapsto> unmarshalFunc)\<rparr>"

text \<open>
  The loop \<open>for _, m := range messages\<close> of \<open>AddMessages\<close>, on the template map stored
  under the key. \<open>newMessageTemplate\<close> stands for \<open>NewMessageTemplate\<close> (missing from
  the sources); it returns a pointer, \<open>None\<close> is nil, and a nil entry reads like no entry.
\<close>

fun addTemplates ::
  "(Message \<Rightarrow> 'mt option) \<Rightarrow> (string \<rightharpoonup> 'mt) \<Rightarrow> Message list \<Rightarrow> (string \<rightharpoonup> 'mt)" where
  "addTemplates newMessageTemplate templates [] = templates"
| "addTemplates newMessageTemplate templates (m # messages) =
     addTemplates newMessageTemplate (templates(ID m := newMessageTemplate m)) messages"

text \<open>
  \<open>AddMessages\<close> returns the error (\<open>None\<close> is nil) and the bundle as the call leaves it.
  When no template map is stored under the key, an empty one is stored and \<open>addTag\<close> is
  called; then the loop writes into the map under the key.
\<close>

definition AddMessages ::
  "(Message \<Rightarrow> 'mt option) \<Rightarrow> ('r, 'mt, 'u) Bundle \<Rightarrow> string \<Rightarrow> Tag \<Rightarrow> Message list
     \<Rightarrow> error option \<times> ('r, 'mt, 'u) Bundle" where
  "AddMessages newMessageTemplate b countryCode tag messages =
     (case Rule (pluralRules b) tag of
        None \<Rightarrow> (Some (NoPluralRuleError tag), b)
      | Some pluralRule \<Rightarrow>
          (case messageTemplates b (messageTemplateKey countryCode tag) of
             None \<Rightarrow>
               (let b1 = addTag
                      (b\<lparr>messageTemplates :=
                          (messageTemplates b)(messageTemplateKey countryCode tag \<mapsto> Map.empty)\<rparr>)
                      countryCode tag
                in (None, b1\<lparr>messageTemplates :=
                      (messageTemplates b1)(messageTemplateKey countryCode tag \<mapsto>
                         addTemplates newMessageTemplate Map.empty messages)\<rparr>))
           | Some templates \<Rightarrow>
               (None, b\<lparr>messageTemplates :=
                  (messageTemplates b)(messageTemplateKey countryCode tag \<mapsto>
                     addTemplates newMessageTemplate templates messages)\<rparr>)))"

definition getMessageTemplate ::
  "('r, 'mt, 'u) Bundle \<Rightarrow> Tag \<Rightarrow> string \<Rightarrow> string \<Rightarrow> 'mt option" where
  "getMessageTemplate b tag id' countryCode =
     (case messageTemplates b (messageTemplateKey countryCode tag) of
        None \<Rightarrow> None
      | Some templates \<Rightarrow> templates id')"

text \<open>
  The method \<open>Bundle.ParseMessageFileBytes\<close>. The package-level function of the same name
  is missing from the sources and is the parameter \<open>parseBytes\<close>; it gets the buffer, the
  path and the unmarshal functions of the bundle.
\<close>

definition ParseMessageFileBytes ::
  "(Message \<Rightarrow> 'mt option) \<Rightarrow> (string \<Rightarrow> string \<Rightarrow> (string \<rightharpoonup> 'u) \<Rightarrow> error + MessageFile)
     \<Rightarrow> ('r, 'mt, 'u) Bundle \<Rightarrow> string \<Rightarrow> string \<Rightarrow> string
     \<Rightarrow> (error + MessageFile) \<times> ('r, 'mt, 'u) Bundle" where
  "ParseMessageFileBytes newMessageTemplate parseBytes b buf path countryCode =
     (case parseBytes buf path (unmarshalFuncs b) of
        Inl err \<Rightarrow> (Inl err, b)
      | Inr messageFile \<Rightarrow>
          (case AddMessages newMessageTemplate b countryCode (Tag messageFile) (Messages messageFile) of
             (Some err, b') \<Rightarrow> (Inl err, b')
           | (None, b') \<Rightarrow> (Inr messageFile, b')))"

text \<open>\<open>LoadMessageFile\<close>; \<open>os.ReadFile\<close> is the parameter \<open>readFile\<close>.\<close>

definition LoadMessageFile ::
  "(Message \<Rightarrow> 'mt option) \<Rightarrow> (string \<Rightarrow> string \<Rightarrow> (string \<rightharpoonup> 'u) \<Rightarrow> error + MessageFile)
     \<Rightarrow> (string \<Rightarrow> error + string)
     \<Rightarrow> ('r, 'mt, 'u) Bundle \<Rightarrow> string \<Rightarrow> string
     \<Rightarrow> (error + MessageFile) \<times> ('r, 'mt, 'u) Bundle" where
  "LoadMessageFile newMessageTemplate parseBytes readFile b path countryCode =
     (case readFile path of
        Inl err \<Rightarrow> (Inl err, b)
      | Inr buf \<Rightarrow> ParseMessageFileBytes newMessageTemplate parseBytes b buf path countryCode)"

section \<open>Runs of the bundle\<close>

text \<open>
  The calls that change a bundle after \<open>NewBundle\<close>. \<open>MustAddMessages\<close>,
  \<open>MustLoadMessageFile\<close> and \<open>MustParseMessageFileBytes\<close> make the same call and panic
  on its error.
\<close>

datatype 'u Op =
  OpRegisterUnmarshalFunc string 'u
  | OpAddMessages string Tag "Message list"
  | OpParseMessageFileBytes string string string
  | OpLoadMessageFile string string

fun exec ::
  "(Message \<Rightarrow> 'mt option) \<Rightarrow> (string \<Rightarrow> string \<Rightarrow> (string \<rightharpoonup> 'u) \<Rightarrow> error + MessageFile)
     \<Rightarrow> (string \<Rightarrow> error + string)
     \<Rightarrow> ('r, 'mt, 'u) Bundle \<Rightarrow> 'u Op \<Rightarrow> ('r, 'mt, 'u) Bundle" where
  "exec nmt pb rf b (OpRegisterUnmarshalFunc format f) = RegisterUnmarshalFunc b format f"
| "exec nmt pb rf b (OpAddMessages countryCode tag messages) =
     snd (AddMessages nmt b countryCode tag messages)"
| "exec nmt pb rf b (OpParseMessageFileBytes buf path countryCode) =
     snd (ParseMessageFileBytes nmt pb b buf path countryCode)"
| "exec nmt pb rf b (OpLoadMessageFile path countryCode) =
     snd (LoadMessageFile nmt pb rf b path countryCode)"

definition run ::
  "(Message \<Rightarrow> 'mt option) \<Rightarrow> (string \<Rightarrow> string \<Rightarrow> (string \<rightharpoonup> 'u) \<Rightarrow> error + MessageFile)
     \<Rightarrow> (string \<Rightarrow> error + string)
     \<Rightarrow> ('r, 'mt, 'u) Bundle \<Rightarrow> 'u Op list \<Rightarrow> ('r, 'mt, 'u) Bundle" where
  "run nmt pb rf b ops = foldl (exec nmt pb rf) b ops"

text \<open>
  The call of \<open>AddMessages\<close> that an operation makes in a state, if it makes one:
  \<open>ParseMessageFileBytes\<close> calls it with the tag and the messages of the parsed file,
  \<open>LoadMessageFile\<close> goes through \<open>ParseMessageFileBytes\<close>.
\<close>

fun opCall ::
  "(string \<Rightarrow> string \<Rightarrow> (string \<rightharpoonup> 'u) \<Rightarrow> error + MessageFile)
     \<Rightarrow> (string \<Rightarrow> error + string)
     \<Rightarrow> ('r, 'mt, 'u) Bundle \<Rightarrow> 'u Op \<Rightarrow> (string \<times> Tag \<times> Message list) option" where
  "opCall pb rf b (OpRegisterUnmarshalFunc format f) = None"
| "opCall pb rf b (OpAddMessages countryCode tag messages) = Some (countryCode, tag, messages)"
| "opCall pb rf b (OpParseMessageFileBytes buf path countryCode) =
     (case pb buf path (unmarshalFuncs b) of
        Inl err \<Rightarrow> None
      | Inr messageFile \<Rightarrow> Some (countryCode, Tag messageFile, Messages messageFile))"
| "opCall pb rf b (OpLoadMessageFile path countryCode) =
     (case rf path of
        Inl err \<Rightarrow> None
      | Inr buf \<Rightarrow>
          (case pb buf path (unmarshalFuncs b) of
             Inl err \<Rightarrow> None
           | Inr messageFile \<Rightarrow> Some (countryCode, Tag messageFile, Messages messageFile)))"

text \<open>The calls of \<open>AddMessages\<close> made along a run, in order.\<close>

fun calls ::
  "(Message \<Rightarrow> 'mt option) \<Rightarrow> (string \<Rightarrow> string \<Rightarrow> (string \<rightharpoonup> 'u) \<Rightarrow> error + MessageFile)
     \<Rightarrow> (string \<Rightarrow> error + string)
     \<Rightarrow> ('r, 'mt, 'u) Bundle \<Rightarrow> 'u Op list \<Rightarrow> (string \<times> Tag \<times> Message list) list" where
  "calls nmt pb rf b [] = []"
| "calls nmt pb rf b (op # ops) =
     (case opCall pb rf b op of None \<Rightarrow> [] | Some c \<Rightarrow> [c]) @ calls nmt pb rf (exec nmt pb rf b op) ops"

text \<open>
  A call of \<open>AddMessages\<close> for the pair succeeded (the tag has a plural rule); and the
  same with at least one message in the call.
\<close>

definition addSucceeded ::
  "'r Rules \<Rightarrow> (string \<times> Tag \<times> Message list) list \<Rightarrow> string \<Rightarrow> Tag \<Rightarrow> bool" where
  "addSucceeded rules cs countryCode tag =
     list_ex (\<lambda>c. fst c = countryCode \<and> fst (snd c) = tag \<and> Rule rules tag \<noteq> None) cs"

definition messageAdded ::
  "'r Rules \<Rightarrow> (string \<times> Tag \<times> Message list) list \<Rightarrow> string \<Rightarrow> Tag \<Rightarrow> bool" where
  "messageAdded rules cs countryCode tag =
     list_ex (\<lambda>c. fst c = countryCode \<and> fst (snd c) = tag \<and> snd (snd c) \<noteq> []
                 \<and> Rule rules tag \<noteq> None) cs"

text \<open>The last message of a list that has a given ID.\<close>

fun lastMessage :: "string \<Rightarrow> Message list \<Rightarrow> Message option" where
  "lastMessage i [] = None"
| "lastMessage i (m # messages) =
     (case lastMessage i messages of
        Some m' \<Rightarrow> Some m'
      | None \<Rightarrow> if ID m = i then Some m else None)"

section \<open>Example data\<close>

text \<open>
  A small rule table, a template constructor that keeps the text of \<open>Other\<close>, a parser
  and a file reader that fail, and two messages with the same ID.
\<close>

definition exRules :: "string Rules" where
  "exRules = [''en'' \<mapsto> ''one-other'', ''fr'' \<mapsto> ''one-many-other'', ''ja'' \<mapsto> ''other'']"

definition exTemplate :: "Message \<Rightarrow> string option" where
  "exTemplate m = Some (Other m)"

definition exParse :: "string \<Rightarrow> string \<Rightarrow> (string \<rightharpoonup> unit) \<Rightarrow> error + MessageFile" where
  "exParse buf path funcs = Inl (OtherError ''no unmarshal function'')"

definition exRead :: "string \<Rightarrow> error + string" where
  "exRead path = Inl (OtherError ''no such file'')"

definition exHello :: Message where
  "exHello = \<lparr>ID = ''hello'', Zero = [], One = [], Two = [], Few = [], Many = [], Other = ''Hello''\<rparr>"

definition exHello2 :: Message where
  "exHello2 = \<lparr>ID = ''hello'', Zero = [], One = [], Two = [], Few = [], Many = [], Other = ''Hi''\<rparr>"

definition exBundle :: "(string, string, unit) Bundle" where
  "exBundle = NewBundle exRules ''tr'' ''en''"

text \<open>
  The example bundle after \<open>AddMessages("gb", fr)\<close> with no message, after
  \<open>AddMessages("tr", en, exHello)\<close>, and after both calls in that order.
\<close>

definition exBundleGB :: "(string, string, unit) Bundle" where
  "exBundleGB = snd (AddMessages exTemplate exBundle ''gb'' ''fr'' [])"

definition exBundleHello :: "(string, string, unit) Bundle" where
  "exBundleHello = snd (AddMessages exTemplate exBundle ''tr'' ''en'' [exHello])"

definition exBundleGBHello :: "(string, string, unit) Bundle" where
  "exBundleGBHello = snd (AddMessages exTemplate exBundleGB ''tr'' ''en'' [exHello])"

text \<open>The example bundle after \<open>AddMessages("tr", fr)\<close> with no message.\<close>

definition exBundleFR :: "(string, string, unit) Bundle" where
  "exBundleFR = snd (AddMessages exTemplate exBundle ''tr'' ''fr'' [])"

section \<open>Facts about the operations\<close>

lemma LanguageTags_frame [simp]:
  "LanguageTags (b\<lparr>messageTemplates := x\<rparr>) cc = LanguageTags b cc"
  "LanguageTags (b\<lparr>unmarshalFuncs := y\<rparr>) cc = LanguageTags b cc"
  by (simp_all add: LanguageTags_def)

lemma LanguageTags_addTag:
  "LanguageTags (addTag b cc tag) cc' =
     (if cc' = cc \<and> tag \<notin> set (LanguageTags b cc) then LanguageTags b cc @ [tag]
      else LanguageTags b cc')"
  by (simp add: addTag_def LanguageTags_def)

lemma matcher_addTag:
  "matcher (addTag b cc tag) =
     (if tag \<in> set (LanguageTags b cc) then matcher b
      else Some (NewMatcher (LanguageTags b cc @ [tag])))"
  by (simp add: addTag_def)

lemma addTag_frame:
  "messageTemplates (addTag b cc tag) = messageTemplates b"
  "pluralRules (addTag b cc tag) = pluralRules b"
  "unmarshalFuncs (addTag b cc tag) = unmarshalFuncs b"
  "defaultLanguage (addTag b cc tag) = defaultLanguage b"
  by (simp_all add: addTag_def)

lemma addTag_registered: "tag \<in> set (LanguageTags b cc) \<Longrightarrow> addTag b cc tag = b"
  by (simp add: addTag_def)

lemma AddMessages_error:
  "Rule (pluralRules b) tag = None \<Longrightarrow>
     AddMessages nmt b cc tag msgs = (Some (NoPluralRuleError tag), b)"
  by (simp add: AddMessages_def)

lemma fst_AddMessages:
  "fst (AddMessages nmt b cc tag msgs) =
     (if Rule (pluralRules b) tag = None then Some (NoPluralRuleError tag) else None)"
  by (simp add: AddMessages_def Let_def split: option.splits)

lemma LanguageTags_AddMessages:
  "LanguageTags (snd (AddMessages nmt b cc tag msgs)) cc' =
     (if Rule (pluralRules b) tag \<noteq> None \<and> messageTemplates b (messageTemplateKey cc tag) = None
         \<and> cc' = cc \<and> tag \<notin> set (LanguageTags b cc)
      then LanguageTags b cc @ [tag] else LanguageTags b cc')"
  by (auto simp add: AddMessages_def Let_def LanguageTags_def addTag_def split: option.splits)

lemma countryTagPair_AddMessages_same:
  "\<not> (Rule (pluralRules b) tag \<noteq> None \<and> messageTemplates b (messageTemplateKey cc tag) = None
         \<and> tag \<notin> set (LanguageTags b cc)) \<Longrightarrow>
   countryTagPair (snd (AddMessages nmt b cc tag msgs)) = countryTagPair b \<and>
   matcher (snd (AddMessages nmt b cc tag msgs)) = matcher b"
  by (auto simp add: AddMessages_def Let_def addTag_def split: option.splits)

lemma matcher_AddMessages:
  "matcher (snd (AddMessages nmt b cc tag msgs)) =
     (if Rule (pluralRules b) tag \<noteq> None \<and> messageTemplates b (messageTemplateKey cc tag) = None
         \<and> tag \<notin> set (LanguageTags b cc)
      then Some (NewMatcher (LanguageTags b cc @ [tag])) else matcher b)"
  by (auto simp add: AddMessages_def Let_def addTag_def split: option.splits)

lemma messageTemplates_AddMessages:
  "messageTemplates (snd (AddMessages nmt b cc tag msgs)) =
     (if Rule (pluralRules b) tag = None then messageTemplates b
      else (messageTemplates b)(messageTemplateKey cc tag \<mapsto>
              addTemplates nmt (case messageTemplates b (messageTemplateKey cc tag) of
                                  None \<Rightarrow> Map.empty | Some t \<Rightarrow> t) msgs))"
  by (auto simp add: AddMessages_def Let_def addTag_def split: option.splits)

lemma AddMessages_frame:
  "pluralRules (snd (AddMessages nmt b cc tag msgs)) = pluralRules b"
  "unmarshalFuncs (snd (AddMessages nmt b cc tag msgs)) = unmarshalFuncs b"
  "defaultLanguage (snd (AddMessages nmt b cc tag msgs)) = defaultLanguage b"
  by (auto simp add: AddMessages_def Let_def addTag_def split: option.splits)

lemma addTemplates_apply:
  "addTemplates nmt tm msgs i =
     (case lastMessage i msgs of None \<Rightarrow> tm i | Some m \<Rightarrow> nmt m)"
proof (induction msgs arbitrary: tm)
  case Nil
  then show ?case by simp
next
  case (Cons m msgs)
  show ?case
    by (simp add: Cons.IH split: option.splits)
qed

lemma addTemplates_idem:
  "addTemplates nmt (addTemplates nmt tm msgs) msgs = addTemplates nmt tm msgs"
  by (rule ext) (simp add: addTemplates_apply split: option.splits)

lemma AddMessages_idem:
  "snd (AddMessages nmt (snd (AddMessages nmt b cc tag msgs)) cc tag msgs)
     = snd (AddMessages nmt b cc tag msgs)"
  apply (cases "Rule (pluralRules b) tag")
   apply (simp add: AddMessages_def)
  apply (cases "messageTemplates b (messageTemplateKey cc tag)")
   apply (simp_all add: AddMessages_def Let_def addTag_frame addTemplates_idem)
  done

section \<open>Facts about runs\<close>

lemma exec_opCall:
  "exec nmt pb rf b op =
     (case opCall pb rf b op of
        None \<Rightarrow> (case op of OpRegisterUnmarshalFunc format f \<Rightarrow> RegisterUnmarshalFunc b format f | _ \<Rightarrow> b)
      | Some c \<Rightarrow> snd (AddMessages nmt b (fst c) (fst (snd c)) (snd (snd c))))"
  by (cases op)
    (auto simp add: ParseMessageFileBytes_def LoadMessageFile_def
      split: sum.splits option.splits prod.splits)

lemma LanguageTags_RegisterUnmarshalFunc [simp]:
  "LanguageTags (RegisterUnmarshalFunc b format f) cc = LanguageTags b cc"
  by (simp add: RegisterUnmarshalFunc_def)

lemma RegisterUnmarshalFunc_frame [simp]:
  "messageTemplates (RegisterUnmarshalFunc b format f) = messageTemplates b"
  "pluralRules (RegisterUnmarshalFunc b format f) = pluralRules b"
  "matcher (RegisterUnmarshalFunc b format f) = matcher b"
  "countryTagPair (RegisterUnmarshalFunc b format f) = countryTagPair b"
  by (simp_all add: RegisterUnmarshalFunc_def)

lemma LanguageTags_exec:
  "LanguageTags (exec nmt pb rf b op) cc' =
     (case opCall pb rf b op of
        None \<Rightarrow> LanguageTags b cc'
      | Some c \<Rightarrow>
          (if Rule (pluralRules b) (fst (snd c)) \<noteq> None
              \<and> messageTemplates b (messageTemplateKey (fst c) (fst (snd c))) = None
              \<and> cc' = fst c \<and> fst (snd c) \<notin> set (LanguageTags b (fst c))
           then LanguageTags b (fst c) @ [fst (snd c)] else LanguageTags b cc'))"
  by (simp add: exec_opCall LanguageTags_AddMessages split: option.splits Op.splits)

lemma pluralRules_exec [simp]: "pluralRules (exec nmt pb rf b op) = pluralRules b"
  by (simp add: exec_opCall AddMessages_frame split: option.splits Op.splits)

lemma pluralRules_run [simp]: "pluralRules (run nmt pb rf b ops) = pluralRules b"
  unfolding run_def by (induction ops arbitrary: b) simp_all

lemma run_Nil [simp]: "run nmt pb rf b [] = b"
  by (simp add: run_def)

lemma run_Cons [simp]: "run nmt pb rf b (op # ops) = run nmt pb rf (exec nmt pb rf b op) ops"
  by (simp add: run_def)

lemma run_snoc: "run nmt pb rf b (ops @ [op]) = exec nmt pb rf (run nmt pb rf b ops) op"
  by (simp add: run_def)

lemma LanguageTags_exec_cases:
  "LanguageTags (exec nmt pb rf b op) cc = LanguageTags b cc \<or>
   (\<exists>t. t \<notin> set (LanguageTags b cc) \<and> LanguageTags (exec nmt pb rf b op) cc = LanguageTags b cc @ [t])"
  by (auto simp add: LanguageTags_exec split: option.splits)

lemma distinct_exec:
  "distinct (LanguageTags b cc) \<Longrightarrow> distinct (LanguageTags (exec nmt pb rf b op) cc)"
  using LanguageTags_exec_cases [of nmt pb rf b op cc] by auto

lemma distinct_run:
  "distinct (LanguageTags b cc) \<Longrightarrow> distinct (LanguageTags (run nmt pb rf b ops) cc)"
  by (induction ops arbitrary: b) (simp_all add: distinct_exec)

lemma prefix_exec: "prefix (LanguageTags b cc) (LanguageTags (exec nmt pb rf b op) cc)"
  using LanguageTags_exec_cases [of nmt pb rf b op cc] by auto

lemma prefix_run: "prefix (LanguageTags b cc) (LanguageTags (run nmt pb rf b ops) cc)"
proof (induction ops arbitrary: b)
  case Nil
  show ?case by simp
next
  case (Cons op ops)
  have "prefix (LanguageTags b cc) (LanguageTags (exec nmt pb rf b op) cc)"
    by (rule prefix_exec)
  also have "prefix \<dots> (LanguageTags (run nmt pb rf (exec nmt pb rf b op) ops) cc)"
    by (rule Cons.IH)
  finally show ?case by simp
qed

lemma LanguageTags_NewBundle:
  "LanguageTags (NewBundle dr cc0 dl) cc = (if cc = cc0 then [dl] else [])"
  by (simp add: NewBundle_def LanguageTags_addTag) (simp add: LanguageTags_def)

lemma NewBundle_fields:
  "messageTemplates (NewBundle dr cc0 dl) = Map.empty"
  "pluralRules (NewBundle dr cc0 dl) = dr(artTag := Rule dr English)"
  "matcher (NewBundle dr cc0 dl) = Some (NewMatcher [dl])"
  "unmarshalFuncs (NewBundle dr cc0 dl) = Map.empty"
  "defaultLanguage (NewBundle dr cc0 dl) = dl"
  by (simp_all add: NewBundle_def addTag_def LanguageTags_def)

text \<open>The key names one pair when the country codes have no hyphen.\<close>
lemma messageTemplateKey_inj:
  assumes "messageTemplateKey cc tag = messageTemplateKey cc' tag'"
    and "CHR ''-'' \<notin> set cc" and "CHR ''-'' \<notin> set cc'"
  shows "cc = cc' \<and> tag = tag'"
proof -
  have eq: "cc @ CHR ''-'' # tag = cc' @ CHR ''-'' # tag'"
    using assms(1) by (simp add: messageTemplateKey_def Tag_String_def)
  have "takeWhile (\<lambda>c. c \<noteq> CHR ''-'') (cc @ CHR ''-'' # tag) = cc"
    using assms(2) by (auto simp add: takeWhile_tail)
  moreover have "takeWhile (\<lambda>c. c \<noteq> CHR ''-'') (cc' @ CHR ''-'' # tag') = cc'"
    using assms(3) by (auto simp add: takeWhile_tail)
  ultimately have "cc = cc'" using eq by simp
  with eq show ?thesis by simp
qed

lemma addSucceeded_iff:
  "addSucceeded rules cs cc tag \<longleftrightarrow>
     (\<exists>msgs. (cc, tag, msgs) \<in> set cs) \<and> Rule rules tag \<noteq> None"
  by (force simp add: addSucceeded_def list_ex_iff)

text \<open>
  A registered tag was registered at the start or by a call of \<open>AddMessages\<close> for its
  pair that succeeded; registered tags stay registered.
\<close>
lemma registered_only_if:
  "tag \<in> set (LanguageTags (run nmt pb rf b ops) cc) \<Longrightarrow>
     tag \<in> set (LanguageTags b cc) \<or> addSucceeded (pluralRules b) (calls nmt pb rf b ops) cc tag"
proof (induction ops arbitrary: b)
  case Nil
  then show ?case by simp
next
  case (Cons op ops)
  from Cons.prems have "tag \<in> set (LanguageTags (run nmt pb rf (exec nmt pb rf b op) ops) cc)"
    by simp
  from Cons.IH [OF this]
  consider (a) "tag \<in> set (LanguageTags (exec nmt pb rf b op) cc)"
    | (b) "addSucceeded (pluralRules b) (calls nmt pb rf (exec nmt pb rf b op) ops) cc tag"
    by auto
  then show ?case
  proof cases
    case a
    then show ?thesis
      by (auto simp add: LanguageTags_exec addSucceeded_iff split: option.splits if_splits)
  next
    case b
    then show ?thesis by (auto simp add: addSucceeded_iff)
  qed
qed

lemma registered_mono:
  "tag \<in> set (LanguageTags b cc) \<Longrightarrow> tag \<in> set (LanguageTags (run nmt pb rf b ops) cc)"
  using prefix_run [of b cc nmt pb rf ops] by (auto dest: set_mono_prefix)

text \<open>
  When every stored key comes from a registered pair with a hyphen-free country code, a
  successful call of \<open>AddMessages\<close> for such a country code leaves its pair registered,
  and the property of the keys is kept along a run.
\<close>

lemma AddMessages_registers:
  assumes inv: "\<forall>k. messageTemplates b k \<noteq> None \<longrightarrow>
            (\<exists>c t. k = messageTemplateKey c t \<and> CHR ''-'' \<notin> set c \<and> t \<in> set (LanguageTags b c))"
    and cc: "CHR ''-'' \<notin> set cc"
    and rule: "Rule (pluralRules b) tag \<noteq> None"
  shows "tag \<in> set (LanguageTags (snd (AddMessages nmt b cc tag msgs)) cc)"
proof (cases "messageTemplates b (messageTemplateKey cc tag)")
  case None
  with rule show ?thesis by (simp add: LanguageTags_AddMessages)
next
  case (Some tm)
  with inv obtain c t where k: "messageTemplateKey cc tag = messageTemplateKey c t"
    and c: "CHR ''-'' \<notin> set c" and t: "t \<in> set (LanguageTags b c)"
    by (metis option.distinct(1))
  from messageTemplateKey_inj [OF k cc c] t have "tag \<in> set (LanguageTags b cc)" by simp
  then show ?thesis by (simp add: LanguageTags_AddMessages)
qed

lemma keys_registered_AddMessages:
  assumes inv: "\<forall>k. messageTemplates b k \<noteq> None \<longrightarrow>
            (\<exists>c t. k = messageTemplateKey c t \<and> CHR ''-'' \<notin> set c \<and> t \<in> set (LanguageTags b c))"
    and cc: "CHR ''-'' \<notin> set cc"
  shows "\<forall>k. messageTemplates (snd (AddMessages nmt b cc tag msgs)) k \<noteq> None \<longrightarrow>
            (\<exists>c t. k = messageTemplateKey c t \<and> CHR ''-'' \<notin> set c
               \<and> t \<in> set (LanguageTags (snd (AddMessages nmt b cc tag msgs)) c))"
proof (intro allI impI)
  fix k
  let ?b' = "snd (AddMessages nmt b cc tag msgs)"
  assume k: "messageTemplates ?b' k \<noteq> None"
  have mono: "\<And>c t. t \<in> set (LanguageTags b c) \<Longrightarrow> t \<in> set (LanguageTags ?b' c)"
    by (auto simp add: LanguageTags_AddMessages)
  show "\<exists>c t. k = messageTemplateKey c t \<and> CHR ''-'' \<notin> set c \<and> t \<in> set (LanguageTags ?b' c)"
  proof (cases "messageTemplates b k")
    case (Some tm)
    with inv obtain c t where "k = messageTemplateKey c t" "CHR ''-'' \<notin> set c"
      "t \<in> set (LanguageTags b c)"
      by (metis option.distinct(1))
    with mono show ?thesis by blast
  next
    case None
    with k have rule: "Rule (pluralRules b) tag \<noteq> None" and key: "k = messageTemplateKey cc tag"
      by (auto simp add: messageTemplates_AddMessages split: if_splits)
    from AddMessages_registers [OF inv cc rule] key cc show ?thesis by blast
  qed
qed

lemma keys_registered_exec:
  assumes inv: "\<forall>k. messageTemplates b k \<noteq> None \<longrightarrow>
            (\<exists>c t. k = messageTemplateKey c t \<and> CHR ''-'' \<notin> set c \<and> t \<in> set (LanguageTags b c))"
    and cc: "\<forall>c \<in> set_option (opCall pb rf b op). CHR ''-'' \<notin> set (fst c)"
  shows "\<forall>k. messageTemplates (exec nmt pb rf b op) k \<noteq> None \<longrightarrow>
            (\<exists>c t. k = messageTemplateKey c t \<and> CHR ''-'' \<notin> set c
               \<and> t \<in> set (LanguageTags (exec nmt pb rf b op) c))"
proof (cases "opCall pb rf b op")
  case None
  then show ?thesis using inv by (cases op) (simp_all add: exec_opCall)
next
  case (Some c)
  with cc have "CHR ''-'' \<notin> set (fst c)" by simp
  from keys_registered_AddMessages [OF inv this] Some show ?thesis
    by (simp add: exec_opCall)
qed

lemma registered_if:
  assumes "\<forall>k. messageTemplates b k \<noteq> None \<longrightarrow>
            (\<exists>c t. k = messageTemplateKey c t \<and> CHR ''-'' \<notin> set c \<and> t \<in> set (LanguageTags b c))"
    and "\<forall>c \<in> set (calls nmt pb rf b ops). CHR ''-'' \<notin> set (fst c)"
    and "addSucceeded (pluralRules b) (calls nmt pb rf b ops) cc tag"
  shows "tag \<in> set (LanguageTags (run nmt pb rf b ops) cc)"
  using assms
proof (induction ops arbitrary: b)
  case Nil
  then show ?case by (simp add: addSucceeded_def)
next
  case (Cons op ops)
  let ?b' = "exec nmt pb rf b op"
  have hy: "\<forall>c \<in> set_option (opCall pb rf b op). CHR ''-'' \<notin> set (fst c)"
    using Cons.prems(2) by (auto split: option.splits)
  have inv': "\<forall>k. messageTemplates ?b' k \<noteq> None \<longrightarrow>
            (\<exists>c t. k = messageTemplateKey c t \<and> CHR ''-'' \<notin> set c \<and> t \<in> set (LanguageTags ?b' c))"
    by (rule keys_registered_exec [OF Cons.prems(1) hy])
  have rest: "\<forall>c \<in> set (calls nmt pb rf ?b' ops). CHR ''-'' \<notin> set (fst c)"
    using Cons.prems(2) by simp
  have rule: "Rule (pluralRules b) tag \<noteq> None"
    using Cons.prems(3) by (simp add: addSucceeded_iff)
  have "(\<exists>msgs. opCall pb rf b op = Some (cc, tag, msgs))
      \<or> (\<exists>msgs. (cc, tag, msgs) \<in> set (calls nmt pb rf ?b' ops))"
    using Cons.prems(3) by (cases "opCall pb rf b op") (auto simp add: addSucceeded_iff)
  then consider (now) msgs where "opCall pb rf b op = Some (cc, tag, msgs)"
    | (later) "addSucceeded (pluralRules ?b') (calls nmt pb rf ?b' ops) cc tag"
    using rule by (auto simp add: addSucceeded_iff)
  then show ?case
  proof cases
    case now
    from hy now have "CHR ''-'' \<notin> set cc" by simp
    from AddMessages_registers [OF Cons.prems(1) this rule] now
    have "tag \<in> set (LanguageTags ?b' cc)" by (simp add: exec_opCall)
    then show ?thesis by (simp add: registered_mono)
  next
    case later
    from Cons.IH [OF inv' rest later] show ?thesis by simp
  qed
qed

lemma run_append: "run nmt pb rf b (ops @ ops') = run nmt pb rf (run nmt pb rf b ops) ops'"
  by (simp add: run_def)

lemma getMessageTemplate_AddMessages:
  "Rule (pluralRules b) tag \<noteq> None \<Longrightarrow>
   getMessageTemplate (snd (AddMessages nmt b cc tag msgs)) tag i cc =
     (case lastMessage i msgs of Some m \<Rightarrow> nmt m | None \<Rightarrow> getMessageTemplate b tag i cc)"
  by (auto simp add: getMessageTemplate_def messageTemplates_AddMessages addTemplates_apply
      split: option.splits)

text \<open>The facts that evaluate the operations on the example bundle.\<close>

lemmas ex_simps =
  exBundle_def exRules_def exTemplate_def exHello_def exHello2_def
  NewBundle_fields LanguageTags_NewBundle LanguageTags_AddMessages matcher_AddMessages
  messageTemplates_AddMessages AddMessages_frame fst_AddMessages
  Rule_def Base_def artTag_def English_def messageTemplateKey_def Tag_String_def
  getMessageTemplate_def

text \<open>
  The single matcher of the bundle is, in every state of a run, the matcher over the tag
  list of one country code: the one that was extended last.
\<close>

lemma matcher_exec:
  "matcher (exec nmt pb rf b op) =
     (case opCall pb rf b op of
        None \<Rightarrow> matcher b
      | Some c \<Rightarrow>
          (if Rule (pluralRules b) (fst (snd c)) \<noteq> None
              \<and> messageTemplates b (messageTemplateKey (fst c) (fst (snd c))) = None
              \<and> fst (snd c) \<notin> set (LanguageTags b (fst c))
           then Some (NewMatcher (LanguageTags b (fst c) @ [fst (snd c)])) else matcher b))"
  by (simp add: exec_opCall matcher_AddMessages split: option.splits Op.splits)

lemma matcher_one_country_exec:
  assumes "matcher b = Some (NewMatcher (LanguageTags b c))"
  shows "\<exists>c'. matcher (exec nmt pb rf b op) = Some (NewMatcher (LanguageTags (exec nmt pb rf b op) c'))"
proof (cases "matcher (exec nmt pb rf b op) = matcher b \<and> (\<forall>c'. LanguageTags (exec nmt pb rf b op) c' = LanguageTags b c')")
  case True
  with assms show ?thesis by metis
next
  case False
  then obtain x where x: "opCall pb rf b op = Some x"
    and cond: "Rule (pluralRules b) (fst (snd x)) \<noteq> None
              \<and> messageTemplates b (messageTemplateKey (fst x) (fst (snd x))) = None
              \<and> fst (snd x) \<notin> set (LanguageTags b (fst x))"
    by (cases "opCall pb rf b op") (auto simp add: matcher_exec LanguageTags_exec split: if_splits)
  have "matcher (exec nmt pb rf b op) = Some (NewMatcher (LanguageTags (exec nmt pb rf b op) (fst x)))"
    using x cond by (simp add: matcher_exec LanguageTags_exec)
  then show ?thesis ..
qed

lemma matcher_one_country_run:
  "matcher b = Some (NewMatcher (LanguageTags b c)) \<Longrightarrow>
   \<exists>c'. matcher (run nmt pb rf b ops) = Some (NewMatcher (LanguageTags (run nmt pb rf b ops) c'))"
proof (induction ops arbitrary: b c)
  case Nil
  then show ?case by auto
next
  case (Cons op ops)
  from matcher_one_country_exec [OF Cons.prems, of nmt pb rf op]
  obtain c' where "matcher (exec nmt pb rf b op) = Some (NewMatcher (LanguageTags (exec nmt pb rf b op) c'))" ..
  from Cons.IH [OF this] show ?case by simp
qed

lemma matcher_one_country:
  assumes "b0 = NewBundle dr cc0 dl" and "b = run nmt pb rf b0 ops"
  shows "\<exists>c. matcher b = Some (NewMatcher (LanguageTags b c))"
  unfolding assms(2)
  by (rule matcher_one_country_run [where c = cc0])
    (simp add: assms(1) NewBundle_fields LanguageTags_NewBundle)

text \<open>
  Two calls of \<open>AddMessages\<close> for one country code register the same set of tags in
  either order; the order of the list follows the order of the calls.
\<close>

lemma messageTemplateKey_same_country:
  "messageTemplateKey cc t1 = messageTemplateKey cc t2 \<longleftrightarrow> t1 = t2"
  by (simp add: messageTemplateKey_def Tag_String_def)

lemma registered_set_order_independent:
  "set (LanguageTags (snd (AddMessages nmt (snd (AddMessages nmt b cc t1 ms1)) cc t2 ms2)) c)
   = set (LanguageTags (snd (AddMessages nmt (snd (AddMessages nmt b cc t2 ms2)) cc t1 ms1)) c)"
  by (auto simp add: LanguageTags_AddMessages messageTemplates_AddMessages AddMessages_frame
      messageTemplateKey_same_country split: if_splits)

section \<open>The history of a pair\<close>

text \<open>
  A template map stored under a key was stored at the start or by a call of
  \<open>AddMessages\<close> that succeeded for a pair with this key.
\<close>

lemma messageTemplates_exec:
  "messageTemplates (exec nmt pb rf b op) k \<noteq> None \<Longrightarrow>
     messageTemplates b k \<noteq> None \<or>
     (\<exists>c \<in> set_option (opCall pb rf b op).
        k = messageTemplateKey (fst c) (fst (snd c)) \<and> Rule (pluralRules b) (fst (snd c)) \<noteq> None)"
  by (cases "opCall pb rf b op"; cases op)
    (auto simp add: exec_opCall messageTemplates_AddMessages split: if_splits)

lemma stored_key_only_if:
  "messageTemplates (run nmt pb rf b ops) k \<noteq> None \<Longrightarrow>
     messageTemplates b k \<noteq> None \<or>
     (\<exists>c \<in> set (calls nmt pb rf b ops).
        k = messageTemplateKey (fst c) (fst (snd c)) \<and> Rule (pluralRules b) (fst (snd c)) \<noteq> None)"
proof (induction ops arbitrary: b)
  case Nil
  then show ?case by simp
next
  case (Cons op ops)
  from Cons.prems have "messageTemplates (run nmt pb rf (exec nmt pb rf b op) ops) k \<noteq> None"
    by simp
  from Cons.IH [OF this]
  consider (a) "messageTemplates (exec nmt pb rf b op) k \<noteq> None"
    | (b) "\<exists>c \<in> set (calls nmt pb rf (exec nmt pb rf b op) ops).
        k = messageTemplateKey (fst c) (fst (snd c)) \<and> Rule (pluralRules b) (fst (snd c)) \<noteq> None"
    by auto
  then show ?case
  proof cases
    case a
    from messageTemplates_exec [OF a] show ?thesis
      by (auto split: option.splits)
  next
    case b
    then show ?thesis by auto
  qed
qed

text \<open>
  The two guards of a successful call: \<open>addTag\<close> is reached when no template map is
  stored under the key, and it appends and rebuilds when the tag is not in the list.
\<close>

lemma AddMessages_registration_guards:
  assumes "Rule (pluralRules b) tag \<noteq> None"
  shows "fst (AddMessages nmt b cc tag msgs) = None
    \<and> ((countryTagPair (snd (AddMessages nmt b cc tag msgs)) \<noteq> countryTagPair b)
         = (messageTemplates b (messageTemplateKey cc tag) = None \<and> tag \<notin> set (LanguageTags b cc)))
    \<and> (if messageTemplates b (messageTemplateKey cc tag) = None \<and> tag \<notin> set (LanguageTags b cc)
        then countryTagPair (snd (AddMessages nmt b cc tag msgs))
               = (countryTagPair b)(cc \<mapsto> LanguageTags b cc @ [tag])
           \<and> LanguageTags (snd (AddMessages nmt b cc tag msgs)) cc = LanguageTags b cc @ [tag]
           \<and> matcher (snd (AddMessages nmt b cc tag msgs))
               = Some (NewMatcher (LanguageTags (snd (AddMessages nmt b cc tag msgs)) cc))
        else countryTagPair (snd (AddMessages nmt b cc tag msgs)) = countryTagPair b
           \<and> matcher (snd (AddMessages nmt b cc tag msgs)) = matcher b)"
proof (cases "messageTemplates b (messageTemplateKey cc tag) = None \<and> tag \<notin> set (LanguageTags b cc)")
  case True
  have ctp: "countryTagPair (snd (AddMessages nmt b cc tag msgs))
               = (countryTagPair b)(cc \<mapsto> LanguageTags b cc @ [tag])"
    using assms True by (auto simp add: AddMessages_def Let_def addTag_def)
  have "countryTagPair (snd (AddMessages nmt b cc tag msgs)) cc \<noteq> countryTagPair b cc"
    unfolding ctp using True by (auto simp add: LanguageTags_def split: option.splits)
  then have "countryTagPair (snd (AddMessages nmt b cc tag msgs)) \<noteq> countryTagPair b"
    by metis
  with True ctp assms show ?thesis
    by (simp add: fst_AddMessages LanguageTags_AddMessages matcher_AddMessages)
next
  case False
  then have "\<not> (Rule (pluralRules b) tag \<noteq> None
      \<and> messageTemplates b (messageTemplateKey cc tag) = None \<and> tag \<notin> set (LanguageTags b cc))"
    by simp
  from countryTagPair_AddMessages_same [OF this, of nmt msgs] False assms show ?thesis
    by (auto simp add: fst_AddMessages)
qed

text \<open>
  In a state reached from \<open>NewBundle\<close> by calls with hyphen-free country codes, the two
  guards are open for a pair exactly when no call of \<open>AddMessages\<close> has succeeded for it
  and it is not the pair given to \<open>NewBundle\<close>.
\<close>
lemma first_add_iff_guards:
  assumes b0: "b0 = NewBundle dr cc0 dl" and b: "b = run nmt pb rf b0 ops"
    and hy: "\<forall>c \<in> set (calls nmt pb rf b0 ops). CHR ''-'' \<notin> set (fst c)"
    and cc: "CHR ''-'' \<notin> set cc"
    and rule: "Rule (pluralRules b) tag \<noteq> None"
  shows "(messageTemplates b (messageTemplateKey cc tag) = None \<and> tag \<notin> set (LanguageTags b cc))
     = (\<not> addSucceeded (pluralRules b0) (calls nmt pb rf b0 ops) cc tag \<and> \<not> (cc = cc0 \<and> tag = dl))"
proof
  assume g: "messageTemplates b (messageTemplateKey cc tag) = None \<and> tag \<notin> set (LanguageTags b cc)"
  have inv0: "\<forall>k. messageTemplates b0 k \<noteq> None \<longrightarrow>
            (\<exists>c t. k = messageTemplateKey c t \<and> CHR ''-'' \<notin> set c \<and> t \<in> set (LanguageTags b0 c))"
    by (simp add: b0 NewBundle_fields)
  have "\<not> addSucceeded (pluralRules b0) (calls nmt pb rf b0 ops) cc tag"
    using registered_if [OF inv0 hy] g unfolding b by blast
  moreover have "dl \<in> set (LanguageTags b cc0)"
    unfolding b by (rule registered_mono) (simp add: b0 LanguageTags_NewBundle)
  with g have "\<not> (cc = cc0 \<and> tag = dl)" by blast
  ultimately show "\<not> addSucceeded (pluralRules b0) (calls nmt pb rf b0 ops) cc tag
      \<and> \<not> (cc = cc0 \<and> tag = dl)" ..
next
  assume h: "\<not> addSucceeded (pluralRules b0) (calls nmt pb rf b0 ops) cc tag \<and> \<not> (cc = cc0 \<and> tag = dl)"
  have "tag \<notin> set (LanguageTags b cc)"
  proof
    assume "tag \<in> set (LanguageTags b cc)"
    from registered_only_if [OF this [unfolded b]] h show False
      by (auto simp add: b0 LanguageTags_NewBundle split: if_splits)
  qed
  moreover have "messageTemplates b (messageTemplateKey cc tag) = None"
  proof (rule ccontr)
    assume "messageTemplates b (messageTemplateKey cc tag) \<noteq> None"
    from stored_key_only_if [OF this [unfolded b]]
    obtain c where c: "c \<in> set (calls nmt pb rf b0 ops)"
      and k: "messageTemplateKey cc tag = messageTemplateKey (fst c) (fst (snd c))"
      and r: "Rule (pluralRules b0) (fst (snd c)) \<noteq> None"
      by (auto simp add: b0 NewBundle_fields)
    from hy c have "CHR ''-'' \<notin> set (fst c)" by blast
    from messageTemplateKey_inj [OF k cc this] have "fst c = cc" "fst (snd c) = tag" by simp_all
    with c r have "addSucceeded (pluralRules b0) (calls nmt pb rf b0 ops) cc tag"
      by (auto simp add: addSucceeded_def list_ex_iff)
    with h show False by blast
  qed
  ultimately show "messageTemplates b (messageTemplateKey cc tag) = None \<and> tag \<notin> set (LanguageTags b cc)"
    by blast
qed

section \<open>The claims\<close>

text \<open>
  C1. The claim: the matcher is scoped per country code, so matching for one country code
  searches only the tags registered under it. The bundle has a single matcher, which
  \<open>addTag\<close> rebuilds from the tags of the country code it has just extended. After
  \<open>NewBundle("tr", en)\<close> and \<open>AddMessages("gb", fr)\<close> the tags of "tr" are [en], and the
  matcher of the bundle searches [fr], a tag registered under "gb" only.
\<close>

theorem matcher_overwritten_by_other_country:
  "LanguageTags exBundleGB ''tr'' = [''en'']
   \<and> LanguageTags exBundleGB ''gb'' = [''fr'']
   \<and> matcher exBundleGB = Some (NewMatcher [''fr''])"
  by (simp add: exBundleGB_def ex_simps)

text \<open>
  C2, as amended. In every state reached from \<open>NewBundle\<close>, a pair (country code, tag) in
  \<open>countryTagPair\<close> is the pair given to \<open>NewBundle\<close> or a pair for which \<open>AddMessages\<close>
  has succeeded (with any number of messages, none included); the pair given to
  \<open>NewBundle\<close> is always registered; and a pair for which \<open>AddMessages\<close> has succeeded is
  registered when no country code of the calls contains a hyphen, so that the key of the
  template map names one pair only.
\<close>

theorem registered_iff_add_succeeded:
  assumes "b0 = NewBundle dr cc0 dl" and "b = run nmt pb rf b0 ops"
  shows "(tag \<in> set (LanguageTags b cc) \<longrightarrow>
            cc = cc0 \<and> tag = dl \<or> addSucceeded (pluralRules b0) (calls nmt pb rf b0 ops) cc tag)
    \<and> dl \<in> set (LanguageTags b cc0)
    \<and> ((\<forall>c \<in> set (calls nmt pb rf b0 ops). CHR ''-'' \<notin> set (fst c)) \<longrightarrow>
        addSucceeded (pluralRules b0) (calls nmt pb rf b0 ops) cc tag \<longrightarrow>
        tag \<in> set (LanguageTags b cc))"
proof -
  have init: "\<And>c. LanguageTags b0 c = (if c = cc0 then [dl] else [])"
    by (simp add: assms(1) LanguageTags_NewBundle)
  have "tag \<in> set (LanguageTags b cc) \<longrightarrow>
            cc = cc0 \<and> tag = dl \<or> addSucceeded (pluralRules b0) (calls nmt pb rf b0 ops) cc tag"
    using registered_only_if [of tag nmt pb rf b0 ops cc]
    by (auto simp add: assms(2) init split: if_splits)
  moreover have "dl \<in> set (LanguageTags b cc0)"
    unfolding assms(2) by (rule registered_mono) (simp add: init)
  moreover have "\<forall>k. messageTemplates b0 k \<noteq> None \<longrightarrow>
            (\<exists>c t. k = messageTemplateKey c t \<and> CHR ''-'' \<notin> set c \<and> t \<in> set (LanguageTags b0 c))"
    by (simp add: assms(1) NewBundle_fields)
  then have "(\<forall>c \<in> set (calls nmt pb rf b0 ops). CHR ''-'' \<notin> set (fst c)) \<longrightarrow>
        addSucceeded (pluralRules b0) (calls nmt pb rf b0 ops) cc tag \<longrightarrow>
        tag \<in> set (LanguageTags b cc)"
    unfolding assms(2) using registered_if by blast
  ultimately show ?thesis by blast
qed

text \<open>
  The theorem at a run that adds a message for ("gb", fr) and then fails to load a file.
\<close>

theorem registered_iff_add_succeeded_witness:
  "calls exTemplate exParse exRead exBundle
      [OpAddMessages ''gb'' ''fr'' [exHello], OpLoadMessageFile ''active.tr.toml'' ''tr'']
     = [(''gb'', ''fr'', [exHello])]
   \<and> addSucceeded (pluralRules exBundle) [(''gb'', ''fr'', [exHello])] ''gb'' ''fr''
   \<and> ''fr'' \<in> set (LanguageTags (run exTemplate exParse exRead exBundle
        [OpAddMessages ''gb'' ''fr'' [exHello], OpLoadMessageFile ''active.tr.toml'' ''tr'']) ''gb'')"
proof -
  have c: "calls exTemplate exParse exRead exBundle
      [OpAddMessages ''gb'' ''fr'' [exHello], OpLoadMessageFile ''active.tr.toml'' ''tr'']
     = [(''gb'', ''fr'', [exHello])]"
    by (simp add: exRead_def)
  have s: "addSucceeded (pluralRules exBundle) [(''gb'', ''fr'', [exHello])] ''gb'' ''fr''"
    by (simp add: addSucceeded_def ex_simps)
  have hy: "\<forall>c \<in> set (calls exTemplate exParse exRead exBundle
      [OpAddMessages ''gb'' ''fr'' [exHello], OpLoadMessageFile ''active.tr.toml'' ''tr'']).
      CHR ''-'' \<notin> set (fst c)"
    unfolding c by simp
  have s': "addSucceeded (pluralRules exBundle) (calls exTemplate exParse exRead exBundle
      [OpAddMessages ''gb'' ''fr'' [exHello], OpLoadMessageFile ''active.tr.toml'' ''tr'']) ''gb'' ''fr''"
    unfolding c by (rule s)
  from registered_iff_add_succeeded
    [OF exBundle_def refl, THEN conjunct2, THEN conjunct2, THEN mp, OF hy, THEN mp, OF s']
  have "''fr'' \<in> set (LanguageTags (run exTemplate exParse exRead exBundle
        [OpAddMessages ''gb'' ''fr'' [exHello], OpLoadMessageFile ''active.tr.toml'' ''tr'']) ''gb'')" .
  with c s show ?thesis by blast
qed

text \<open>
  C2 as stated fails: right after \<open>NewBundle("tr", en)\<close> the pair ("tr", en) is registered
  and no message has been added for it; and \<open>AddMessages("tr", fr)\<close> with no message
  registers ("tr", fr).
\<close>

theorem registered_without_message:
  "''en'' \<in> set (LanguageTags (run exTemplate exParse exRead exBundle []) ''tr'')
   \<and> \<not> messageAdded (pluralRules exBundle) (calls exTemplate exParse exRead exBundle []) ''tr'' ''en''
   \<and> ''fr'' \<in> set (LanguageTags
        (run exTemplate exParse exRead exBundle [OpAddMessages ''tr'' ''fr'' []]) ''tr'')
   \<and> \<not> messageAdded (pluralRules exBundle)
        (calls exTemplate exParse exRead exBundle [OpAddMessages ''tr'' ''fr'' []]) ''tr'' ''fr''"
  by (simp add: ex_simps messageAdded_def)

text \<open>
  C4. \<open>AddMessages\<close> is atomic on failure: when no plural rule is registered for the tag
  it returns the error for that tag and leaves the whole bundle as it was; and whenever
  it returns an error, the bundle is unchanged (and the error is that of a missing rule).
\<close>

theorem AddMessages_atomic_on_failure:
  "(Rule (pluralRules b) tag = None \<longrightarrow>
      AddMessages nmt b cc tag msgs = (Some (NoPluralRuleError tag), b))
   \<and> (fst (AddMessages nmt b cc tag msgs) \<noteq> None \<longrightarrow>
      snd (AddMessages nmt b cc tag msgs) = b \<and> Rule (pluralRules b) tag = None)"
  by (simp add: AddMessages_error fst_AddMessages)

text \<open>The theorem at the tag "xx", which has no rule in the example table.\<close>

theorem AddMessages_atomic_on_failure_witness:
  "Rule (pluralRules exBundle) ''xx'' = None
   \<and> AddMessages exTemplate exBundle ''tr'' ''xx'' [exHello] = (Some (NoPluralRuleError ''xx''), exBundle)"
proof -
  have h: "Rule (pluralRules exBundle) ''xx'' = None"
    by (simp add: ex_simps)
  from AddMessages_atomic_on_failure [of exBundle "''xx''" exTemplate "''tr''" "[exHello]"] h
  show ?thesis by simp
qed

text \<open>
  C5. \<open>AddMessages\<close> is last-write-wins and idempotent. For a tag with a plural rule the
  call succeeds; afterwards the template found under an ID is that of the last message of
  the call with this ID, and the template found before the call when the call has no such
  message: one template per ID in a pair, the map under the key having one entry per ID.
  Adding \<open>m1\<close> and then \<open>m2\<close> with the same ID leaves the template of \<open>m2\<close>; and making
  the same call a second time leaves the bundle as the first call left it.
\<close>

theorem AddMessages_last_write_wins:
  assumes "Rule (pluralRules b) tag \<noteq> None" and "ID m1 = ID m2"
  shows "fst (AddMessages nmt b cc tag msgs) = None
    \<and> getMessageTemplate (snd (AddMessages nmt b cc tag msgs)) tag i cc =
        (case lastMessage i msgs of Some m \<Rightarrow> nmt m | None \<Rightarrow> getMessageTemplate b tag i cc)
    \<and> getMessageTemplate
         (snd (AddMessages nmt (snd (AddMessages nmt b cc tag [m1])) cc tag [m2])) tag (ID m1) cc
        = nmt m2
    \<and> snd (AddMessages nmt (snd (AddMessages nmt b cc tag msgs)) cc tag msgs)
        = snd (AddMessages nmt b cc tag msgs)"
proof -
  have r1: "fst (AddMessages nmt b cc tag msgs) = None"
    using assms(1) by (simp add: fst_AddMessages)
  have r2: "Rule (pluralRules (snd (AddMessages nmt b cc tag [m1]))) tag \<noteq> None"
    using assms(1) by (simp add: AddMessages_frame)
  have r3: "getMessageTemplate
         (snd (AddMessages nmt (snd (AddMessages nmt b cc tag [m1])) cc tag [m2])) tag (ID m1) cc
        = nmt m2"
    using assms(2) by (simp add: getMessageTemplate_AddMessages [OF r2])
  show ?thesis
    using r1 r3 getMessageTemplate_AddMessages [OF assms(1)] AddMessages_idem by blast
qed

text \<open>The theorem at two messages with the ID "hello": the text of the second is found.\<close>

theorem AddMessages_last_write_wins_witness:
  "getMessageTemplate
     (snd (AddMessages exTemplate (snd (AddMessages exTemplate exBundle ''tr'' ''en'' [exHello]))
        ''tr'' ''en'' [exHello2])) ''en'' ''hello'' ''tr'' = Some ''Hi''"
proof -
  have h: "Rule (pluralRules exBundle) ''en'' \<noteq> None" by (simp add: ex_simps)
  have i: "ID exHello = ID exHello2" by (simp add: exHello_def exHello2_def)
  from AddMessages_last_write_wins [OF h i, of exTemplate "''tr''" "[]" "''hello''"]
  show ?thesis
    by (simp add: exHello_def exHello2_def exTemplate_def)
qed

text \<open>
  C6. The claim: the lookup returns absent for every pair for which no messages were ever
  added. The key of a pair is the country code, a hyphen and the tag, so two pairs can
  share a key: after messages are added for ("a", en-x-foo) only, the lookup for
  ("a-en", x-foo) returns the template that was added for the other pair.
\<close>

theorem getMessageTemplate_key_collision:
  "fst (AddMessages exTemplate exBundle ''a'' ''en-x-foo'' [exHello]) = None
   \<and> calls exTemplate exParse exRead exBundle [OpAddMessages ''a'' ''en-x-foo'' [exHello]]
       = [(''a'', ''en-x-foo'', [exHello])]
   \<and> \<not> messageAdded (pluralRules exBundle) [(''a'', ''en-x-foo'', [exHello])] ''a-en'' ''x-foo''
   \<and> getMessageTemplate
        (run exTemplate exParse exRead exBundle [OpAddMessages ''a'' ''en-x-foo'' [exHello]])
        ''x-foo'' ''hello'' ''a-en'' = Some ''Hello''"
  by (simp add: ex_simps messageAdded_def)

text \<open>
  C7, as amended. In a state reached from \<open>NewBundle\<close> by calls whose country codes have
  no hyphen, for a country code without hyphen and a tag with a plural rule,
  \<open>AddMessages\<close> succeeds, and it changes \<open>countryTagPair\<close> if and only if it is the first
  call for the pair that succeeds (whatever the number of its messages) and the pair is
  not the one given to \<open>NewBundle\<close>. In that case the tag is appended to the list of the
  country code and the matcher is rebuilt from that list; every later call for the pair
  changes neither \<open>countryTagPair\<close> nor the matcher. After the call the pair is
  registered in each case.
\<close>

theorem AddMessages_registers_on_first_add:
  assumes "b0 = NewBundle dr cc0 dl" and "b = run nmt pb rf b0 ops"
    and "\<forall>c \<in> set (calls nmt pb rf b0 ops). CHR ''-'' \<notin> set (fst c)"
    and "CHR ''-'' \<notin> set cc"
    and "Rule (pluralRules b) tag \<noteq> None"
  shows "fst (AddMessages nmt b cc tag msgs) = None
    \<and> ((countryTagPair (snd (AddMessages nmt b cc tag msgs)) \<noteq> countryTagPair b)
         = (\<not> addSucceeded (pluralRules b0) (calls nmt pb rf b0 ops) cc tag
             \<and> \<not> (cc = cc0 \<and> tag = dl)))
    \<and> (if \<not> addSucceeded (pluralRules b0) (calls nmt pb rf b0 ops) cc tag \<and> \<not> (cc = cc0 \<and> tag = dl)
        then countryTagPair (snd (AddMessages nmt b cc tag msgs))
               = (countryTagPair b)(cc \<mapsto> LanguageTags b cc @ [tag])
           \<and> LanguageTags (snd (AddMessages nmt b cc tag msgs)) cc = LanguageTags b cc @ [tag]
           \<and> matcher (snd (AddMessages nmt b cc tag msgs))
               = Some (NewMatcher (LanguageTags (snd (AddMessages nmt b cc tag msgs)) cc))
        else countryTagPair (snd (AddMessages nmt b cc tag msgs)) = countryTagPair b
           \<and> matcher (snd (AddMessages nmt b cc tag msgs)) = matcher b)
    \<and> tag \<in> set (LanguageTags (snd (AddMessages nmt b cc tag msgs)) cc)"
proof -
  note guards = first_add_iff_guards [OF assms]
  have inv0: "\<forall>k. messageTemplates b0 k \<noteq> None \<longrightarrow>
            (\<exists>c t. k = messageTemplateKey c t \<and> CHR ''-'' \<notin> set c \<and> t \<in> set (LanguageTags b0 c))"
    by (simp add: assms(1) NewBundle_fields)
  have reg: "tag \<in> set (LanguageTags (snd (AddMessages nmt b cc tag msgs)) cc)"
  proof (cases "messageTemplates b (messageTemplateKey cc tag) = None \<and> tag \<notin> set (LanguageTags b cc)")
    case True
    with assms(5) show ?thesis by (simp add: LanguageTags_AddMessages)
  next
    case False
    with guards have "addSucceeded (pluralRules b0) (calls nmt pb rf b0 ops) cc tag
        \<or> (cc = cc0 \<and> tag = dl)"
      by blast
    then have "tag \<in> set (LanguageTags b cc)"
    proof
      assume "addSucceeded (pluralRules b0) (calls nmt pb rf b0 ops) cc tag"
      from registered_if [OF inv0 assms(3) this] show ?thesis by (simp add: assms(2))
    next
      assume "cc = cc0 \<and> tag = dl"
      moreover have "dl \<in> set (LanguageTags b cc0)"
        unfolding assms(2) by (rule registered_mono) (simp add: assms(1) LanguageTags_NewBundle)
      ultimately show ?thesis by simp
    qed
    then show ?thesis by (simp add: LanguageTags_AddMessages)
  qed
  from AddMessages_registration_guards [OF assms(5), of nmt cc msgs] reg
  show ?thesis unfolding guards by blast
qed

text \<open>
  The theorem after an add for ("tr", fr), at the first add for ("gb", fr): the tag is
  registered under "gb" and the matcher is rebuilt from the list of "gb".
\<close>

theorem AddMessages_registers_on_first_add_witness:
  "calls exTemplate exParse exRead exBundle [OpAddMessages ''tr'' ''fr'' [exHello]]
     = [(''tr'', ''fr'', [exHello])]
   \<and> fst (AddMessages exTemplate
        (run exTemplate exParse exRead exBundle [OpAddMessages ''tr'' ''fr'' [exHello]])
        ''gb'' ''fr'' [exHello]) = None
   \<and> LanguageTags (snd (AddMessages exTemplate
        (run exTemplate exParse exRead exBundle [OpAddMessages ''tr'' ''fr'' [exHello]])
        ''gb'' ''fr'' [exHello])) ''gb'' = [''fr'']
   \<and> matcher (snd (AddMessages exTemplate
        (run exTemplate exParse exRead exBundle [OpAddMessages ''tr'' ''fr'' [exHello]])
        ''gb'' ''fr'' [exHello])) = Some (NewMatcher [''fr''])"
proof -
  let ?ops = "[OpAddMessages ''tr'' ''fr'' [exHello]]"
  let ?b = "run exTemplate exParse exRead exBundle ?ops"
  have c: "calls exTemplate exParse exRead exBundle ?ops = [(''tr'', ''fr'', [exHello])]"
    by simp
  have hy: "\<forall>c \<in> set (calls exTemplate exParse exRead exBundle ?ops). CHR ''-'' \<notin> set (fst c)"
    unfolding c by simp
  have cc: "CHR ''-'' \<notin> set ''gb''" by simp
  have r: "Rule (pluralRules ?b) ''fr'' \<noteq> None" by (simp add: ex_simps)
  have first: "\<not> addSucceeded (pluralRules exBundle) (calls exTemplate exParse exRead exBundle ?ops)
      ''gb'' ''fr'' \<and> \<not> (''gb'' = ''tr'' \<and> ''fr'' = ''en'')"
    unfolding c by (simp add: addSucceeded_def)
  have l: "LanguageTags ?b ''gb'' = []" by (simp add: ex_simps)
  from AddMessages_registers_on_first_add [OF exBundle_def refl hy cc r, of "[exHello]"] first l c
  show ?thesis by simp
qed

text \<open>
  C7 as stated fails at the pair given to \<open>NewBundle\<close>, and at a call with no message.
  After \<open>NewBundle("tr", en)\<close> and \<open>AddMessages("gb", fr)\<close>, the first message for
  ("tr", en) is added with success, no template map being stored for the pair before;
  \<open>addTag\<close> finds the pair registered and returns, so \<open>countryTagPair\<close> is unchanged
  and the matcher is not rebuilt from the tags of "tr": it stays the matcher over [fr].
  And \<open>AddMessages("tr", fr)\<close> with no message, so before any message is added for the
  pair, registers fr and rebuilds the matcher; the first message for ("tr", fr), added
  afterwards, changes neither \<open>countryTagPair\<close> nor the matcher.
\<close>

theorem first_message_without_rebuild:
  "messageTemplates exBundleGB (messageTemplateKey ''tr'' ''en'') = None
   \<and> fst (AddMessages exTemplate exBundleGB ''tr'' ''en'' [exHello]) = None
   \<and> getMessageTemplate exBundleGBHello ''en'' ''hello'' ''tr'' = Some ''Hello''
   \<and> countryTagPair exBundleGBHello = countryTagPair exBundleGB
   \<and> matcher exBundleGBHello = Some (NewMatcher [''fr''])
   \<and> LanguageTags exBundleGBHello ''tr'' = [''en'']
   \<and> LanguageTags exBundle ''tr'' = [''en'']
   \<and> \<not> messageAdded (pluralRules exBundle)
        (calls exTemplate exParse exRead exBundle [OpAddMessages ''tr'' ''fr'' []]) ''tr'' ''fr''
   \<and> LanguageTags exBundleFR ''tr'' = [''en'', ''fr'']
   \<and> matcher exBundleFR = Some (NewMatcher [''en'', ''fr''])
   \<and> fst (AddMessages exTemplate exBundleFR ''tr'' ''fr'' [exHello]) = None
   \<and> countryTagPair (snd (AddMessages exTemplate exBundleFR ''tr'' ''fr'' [exHello]))
       = countryTagPair exBundleFR
   \<and> matcher (snd (AddMessages exTemplate exBundleFR ''tr'' ''fr'' [exHello])) = matcher exBundleFR"
proof -
  have 1: "countryTagPair exBundleGBHello = countryTagPair exBundleGB"
    unfolding exBundleGBHello_def
    by (rule countryTagPair_AddMessages_same [THEN conjunct1]) (simp add: exBundleGB_def ex_simps)
  have 2: "countryTagPair (snd (AddMessages exTemplate exBundleFR ''tr'' ''fr'' [exHello]))
       = countryTagPair exBundleFR"
    by (rule countryTagPair_AddMessages_same [THEN conjunct1]) (simp add: exBundleFR_def ex_simps)
  show ?thesis
    using 1 2
    by (simp add: exBundleGBHello_def exBundleGB_def exBundleFR_def ex_simps messageAdded_def)
qed

text \<open>
  C8. In every state reached from \<open>NewBundle\<close> by the operations of the bundle, the list
  returned by \<open>LanguageTags\<close> for a country code has no duplicates and is in insertion
  order: it starts with the list of the new bundle (the default language under the
  country code of \<open>NewBundle\<close>, nothing under another one), every operation leaves it as it
  is or appends one tag that was not in it, and it stays a prefix of the list of every
  later state. Every operation keeps the list free of duplicates.
\<close>

theorem LanguageTags_distinct_insertion_order:
  assumes "b0 = NewBundle dr cc0 dl" and "b = run nmt pb rf b0 ops"
  shows "distinct (LanguageTags b cc)
   \<and> LanguageTags b0 cc = (if cc = cc0 then [dl] else [])
   \<and> prefix (LanguageTags b0 cc) (LanguageTags b cc)
   \<and> distinct (LanguageTags (exec nmt pb rf b op) cc)
   \<and> prefix (LanguageTags b cc) (LanguageTags (run nmt pb rf b ops') cc)
   \<and> (LanguageTags (exec nmt pb rf b op) cc = LanguageTags b cc
      \<or> (\<exists>t. t \<notin> set (LanguageTags b cc)
            \<and> LanguageTags (exec nmt pb rf b op) cc = LanguageTags b cc @ [t]))"
proof -
  have i: "LanguageTags b0 cc = (if cc = cc0 then [dl] else [])"
    by (simp add: assms(1) LanguageTags_NewBundle)
  then have "distinct (LanguageTags b0 cc)"
    by simp
  then have d: "distinct (LanguageTags b cc)"
    unfolding assms(2) by (rule distinct_run)
  have p: "prefix (LanguageTags b0 cc) (LanguageTags b cc)"
    unfolding assms(2) by (rule prefix_run)
  show ?thesis
    using i d p distinct_exec [OF d] prefix_run [of b cc nmt pb rf ops']
      LanguageTags_exec_cases [of nmt pb rf b op cc]
    by blast
qed

text \<open>
  The theorem at a run that registers fr under "tr" and then adds messages for en and fr:
  the list is [en, fr].
\<close>

theorem LanguageTags_distinct_insertion_order_witness:
  "LanguageTags (run exTemplate exParse exRead exBundle
      [OpAddMessages ''tr'' ''fr'' [], OpAddMessages ''tr'' ''en'' [exHello],
       OpAddMessages ''tr'' ''fr'' [exHello]]) ''tr'' = [''en'', ''fr'']
   \<and> distinct (LanguageTags (run exTemplate exParse exRead exBundle
      [OpAddMessages ''tr'' ''fr'' [], OpAddMessages ''tr'' ''en'' [exHello],
       OpAddMessages ''tr'' ''fr'' [exHello]]) ''tr'')"
proof -
  have "LanguageTags (run exTemplate exParse exRead exBundle
      [OpAddMessages ''tr'' ''fr'' [], OpAddMessages ''tr'' ''en'' [exHello],
       OpAddMessages ''tr'' ''fr'' [exHello]]) ''tr'' = [''en'', ''fr'']"
    by (simp add: ex_simps)
  moreover note LanguageTags_distinct_insertion_order
     [OF exBundle_def refl, where nmt = exTemplate and pb = exParse and rf = exRead
      and cc = "''tr''"
      and ops = "[OpAddMessages ''tr'' ''fr'' [], OpAddMessages ''tr'' ''en'' [exHello],
       OpAddMessages ''tr'' ''fr'' [exHello]]", THEN conjunct1]
  ultimately show ?thesis by (rule conjI)
qed

text \<open>
  C9. \<open>NewBundle\<close> seeds the rule table with the default rules and stores under "art" the
  rule that the default rules give for English: every other tag has the entry of the
  default table, the lookup for "art" returns what the lookup for English returns, and it
  succeeds when the default rules have a rule for English.
\<close>

theorem NewBundle_art_rule:
  assumes "b = NewBundle dr cc dl"
  shows "pluralRules b artTag = Rule dr English
   \<and> (\<forall>t. t \<noteq> artTag \<longrightarrow> pluralRules b t = dr t)
   \<and> Rule (pluralRules b) artTag = Rule dr English
   \<and> Rule (pluralRules b) English = Rule dr English
   \<and> (Rule dr English \<noteq> None \<longrightarrow> Rule (pluralRules b) artTag \<noteq> None)"
  unfolding assms
  by (auto simp add: NewBundle_fields Rule_def Base_def artTag_def English_def split: option.splits)

text \<open>The theorem at the example table, where English has the rule "one-other".\<close>

theorem NewBundle_art_rule_witness:
  "Rule (pluralRules exBundle) artTag = Some ''one-other''
   \<and> Rule (pluralRules exBundle) English = Some ''one-other''"
proof -
  have h: "Rule exRules English = Some ''one-other''"
    by (simp add: Rule_def exRules_def English_def)
  from NewBundle_art_rule [OF exBundle_def] h show ?thesis
    by simp
qed

text \<open>
  C10, as amended. For a tag with a plural rule and a pair under whose key no template map
  is stored yet, \<open>AddMessages\<close> with no message succeeds and stores an empty template map
  under the key; afterwards the lookup of every ID under the pair returns absent, the tag
  is in the list of the country code, from which the matcher of that country is built,
  and when the tag was not registered before, the matcher is rebuilt from this list.
\<close>

theorem AddMessages_empty_registers:
  assumes "Rule (pluralRules b) tag \<noteq> None"
    and "messageTemplates b (messageTemplateKey cc tag) = None"
  shows "fst (AddMessages nmt b cc tag []) = None
    \<and> messageTemplates (snd (AddMessages nmt b cc tag [])) (messageTemplateKey cc tag) = Some Map.empty
    \<and> getMessageTemplate (snd (AddMessages nmt b cc tag [])) tag i cc = None
    \<and> tag \<in> set (LanguageTags (snd (AddMessages nmt b cc tag [])) cc)
    \<and> (tag \<notin> set (LanguageTags b cc) \<longrightarrow>
         matcher (snd (AddMessages nmt b cc tag []))
           = Some (NewMatcher (LanguageTags (snd (AddMessages nmt b cc tag [])) cc)))"
  using assms
  by (simp add: fst_AddMessages messageTemplates_AddMessages getMessageTemplate_def
      LanguageTags_AddMessages matcher_AddMessages)

text \<open>The theorem at the pair ("gb", fr) of the example bundle.\<close>

theorem AddMessages_empty_registers_witness:
  "fst (AddMessages exTemplate exBundle ''gb'' ''fr'' []) = None
   \<and> getMessageTemplate (snd (AddMessages exTemplate exBundle ''gb'' ''fr'' [])) ''fr'' ''hello'' ''gb'' = None
   \<and> ''fr'' \<in> set (LanguageTags (snd (AddMessages exTemplate exBundle ''gb'' ''fr'' [])) ''gb'')"
proof -
  have h: "Rule (pluralRules exBundle) ''fr'' \<noteq> None" by (simp add: ex_simps)
  have k: "messageTemplates exBundle (messageTemplateKey ''gb'' ''fr'') = None"
    by (simp add: ex_simps)
  from AddMessages_empty_registers [OF h k, of exTemplate "''hello''"] show ?thesis by simp
qed

text \<open>
  C10 as stated fails in a state where the pair has messages: after "hello" is added for
  ("tr", en), \<open>AddMessages("tr", en)\<close> with no message succeeds and the lookup of "hello"
  still returns its template.
\<close>

theorem AddMessages_empty_keeps_templates:
  "Rule (pluralRules exBundleHello) ''en'' = Some ''one-other''
   \<and> fst (AddMessages exTemplate exBundleHello ''tr'' ''en'' []) = None
   \<and> getMessageTemplate (snd (AddMessages exTemplate exBundleHello ''tr'' ''en'' []))
        ''en'' ''hello'' ''tr'' = Some ''Hello''"
  by (simp add: exBundleHello_def ex_simps)

end
